theory Spec2Isabelle
  imports Complex_Main
begin

section \<open>Strings and numbers of the host language\<close>

text \<open>
  A character is a UTF-16 code unit below 256, that is a character of the Latin-1 range;
  strings holding other code units are outside the model. On this range \<open>trim\<close> removes
  the white space and line terminators TAB, LF, VT, FF, CR, SPACE and NO-BREAK SPACE from
  both ends, and \<open>toLowerCase\<close> maps \<open>A\<close>..\<open>Z\<close> and the capital letters 192..214 and 216..222
  to the letter 32 code units higher; every other character is left alone.
\<close>

definition isWhiteSpace :: "char \<Rightarrow> bool" where
  "isWhiteSpace c = (let n = (of_char c :: nat) in (9 \<le> n \<and> n \<le> 13) \<or> n = 32 \<or> n = 160)"

definition trim :: "string \<Rightarrow> string" where
  "trim s = rev (dropWhile isWhiteSpace (rev (dropWhile isWhiteSpace s)))"

definition lowerChar :: "char \<Rightarrow> char" where
  "lowerChar c =
     (let n = (of_char c :: nat)
      in if (65 \<le> n \<and> n \<le> 90) \<or> (192 \<le> n \<and> n \<le> 214) \<or> (216 \<le> n \<and> n \<le> 222)
         then char_of (n + 32) else c)"

definition toLowerCase :: "string \<Rightarrow> string" where
  "toLowerCase s = map lowerChar s"

text \<open>
  A value used as a condition or on the left of \<open>||\<close>: an absent string and the empty
  string are falsy, every other string is truthy.
\<close>

definition truthy :: "string option \<Rightarrow> bool" where
  "truthy v = (case v of None \<Rightarrow> False | Some s \<Rightarrow> s \<noteq> [])"

text \<open>
  A property key: a string is its own key and \<open>undefined\<close> is coerced to the string
  \<open>undefined\<close>.
\<close>

definition propertyKey :: "string option \<Rightarrow> string" where
  "propertyKey v = (case v of None \<Rightarrow> ''undefined'' | Some s \<Rightarrow> s)"

text \<open>
  Reading a property of a plain object whose own properties are strings: an own property
  is found first; a key that names a member of \<open>Object.prototype\<close> yields that member (a
  function or an object, never a string); any other key yields \<open>undefined\<close>.
\<close>

datatype property_value = Undefined | OwnString string | InheritedMember

definition objectPrototypeMembers :: "string list" where
  "objectPrototypeMembers =
     [''constructor'', ''hasOwnProperty'', ''isPrototypeOf'', ''propertyIsEnumerable'',
      ''toLocaleString'', ''toString'', ''valueOf'', ''__proto__'', ''__defineGetter__'',
      ''__defineSetter__'', ''__lookupGetter__'', ''__lookupSetter__'']"

definition getProperty :: "(string \<rightharpoonup> string) \<Rightarrow> string \<Rightarrow> property_value" where
  "getProperty obj k =
     (case obj k of
        Some v \<Rightarrow> OwnString v
      | None \<Rightarrow> if k \<in> set objectPrototypeMembers then InheritedMember else Undefined)"

datatype js_error = TypeError

text \<open>
  A number is an IEEE 754 double, modelled by the rational it denotes. \<open>fl\<close> rounds a
  rational to the nearest number with a significand of 53 bits, to the even significand on
  a tie, as every arithmetic operation of the host does with its exact result. The
  exponent is not bounded here: \<open>fl\<close> is the rounding of the host for magnitudes from
  \<open>2^-1022\<close> up to the largest double.
\<close>

text \<open>The number of binary digits of a positive integer.\<close>

function bitLength :: "int \<Rightarrow> int" where
  "bitLength n = (if n \<le> 0 then 0 else 1 + bitLength (n div 2))"
  by pat_completeness auto
termination
  by (relation "measure nat") auto

declare bitLength.simps [simp del]

text \<open>For \<open>x > 0\<close>: the exponent \<open>e\<close> with \<open>2^e \<le> x < 2^(e+1)\<close>.\<close>

definition exponentOf :: "rat \<Rightarrow> int" where
  "exponentOf x =
     (let (p, q) = quotient_of x;
          k = bitLength p - bitLength q
      in if 2 powi k \<le> x then k else k - 1)"

definition roundHalfEven :: "rat \<Rightarrow> int" where
  "roundHalfEven y =
     (let f = \<lfloor>y\<rfloor>; d = y - of_int f
      in if d < 1 / 2 then f else if 1 / 2 < d then f + 1 else if even f then f else f + 1)"

definition fl :: "rat \<Rightarrow> rat" where
  "fl x =
     (if x = 0 then 0
      else let e = exponentOf \<bar>x\<bar> - 52
           in sgn x * of_int (roundHalfEven (\<bar>x\<bar> / 2 powi e)) * 2 powi e)"

text \<open>
  A division by zero does not raise in the host language, it yields \<open>NaN\<close> or an infinity:
  the model returns \<open>None\<close> for those.
\<close>

definition jsDivide :: "rat \<Rightarrow> rat \<Rightarrow> rat option" where
  "jsDivide x y = (if y = 0 then None else Some (fl (x / y)))"

text \<open>
  The decimal that \<open>x.toFixed(d)\<close> prints for a double \<open>x\<close>: the multiple \<open>n / 10 ^ d\<close> nearest
  to the exact value of \<open>x\<close>, the larger \<open>n\<close> on a tie (the language standard: the double
  6.25 prints as 6.3, and 28.749999999999996 as 28.7), computed on the absolute value when
  \<open>x\<close> is negative. \<open>parseFloat\<close> reads a decimal as the nearest double.
\<close>

definition toFixed :: "nat \<Rightarrow> rat \<Rightarrow> rat" where
  "toFixed d x =
     (if x < 0 then - (of_int \<lfloor>(- x) * 10 ^ d + 1 / 2\<rfloor> / 10 ^ d)
      else of_int \<lfloor>x * 10 ^ d + 1 / 2\<rfloor> / 10 ^ d)"

definition parseFloat :: "rat \<Rightarrow> rat" where
  "parseFloat decimal = fl decimal"

text \<open>\<open>Math.round\<close> of a double: the nearest integer, the larger one on a tie.\<close>

definition mathRound :: "rat \<Rightarrow> int" where
  "mathRound x = \<lfloor>x + 1 / 2\<rfloor>"

section \<open>Data model\<close>

datatype question_type = Mcq | ShortAnswer

text \<open>
  The correct answer of a question is tested with \<open>typeof q.correctAnswer === 'string'\<close>
  before it is used: \<open>NotAString\<close> stands for every value that fails the test.
\<close>

datatype answer_key = JString string | NotAString

record QuizQuestion =
  qid :: "string option"
  questionText :: string
  qtype :: question_type
  options :: "string list option"
  correctAnswer :: answer_key
  userAnswer :: "string option"
  isCorrect :: "bool option"

text \<open>
  A stored quiz. The dashboard tests \<open>typeof quiz.score === 'number'\<close>: \<open>None\<close> stands
  for a stored score that is not a number.
\<close>

record Quiz =
  quiz_id :: string
  quiz_contentId :: string
  quiz_questions :: "QuizQuestion list"
  quiz_score :: "int option"
  quiz_timestamp :: string
  quiz_durationSeconds :: int

record StudyMaterial =
  material_id :: string
  title :: string
  extractedText :: "string option"

datatype quiz_state = Loading | Taking | Submitting | Results

text \<open>The outcome of an awaited call of the gateway: it resolves with a value or it rejects.\<close>

datatype 'a settled = Resolved 'a | Rejected

section \<open>Grading\<close>

text \<open>
  The callback of \<open>questions.map\<close> in \<open>handleSubmitQuiz\<close>, with the counter
  \<open>calculatedScore\<close> it increments passed in and returned. \<open>userAnswers[q.id]\<close> reads a
  plain object, and \<open>userAnswer?.trim()\<close> skips \<open>undefined\<close> only: on a member of
  \<open>Object.prototype\<close> it calls a \<open>trim\<close> that does not exist and raises.
\<close>

definition gradeQuestion ::
  "(string \<rightharpoonup> string) \<Rightarrow> QuizQuestion \<Rightarrow> int \<Rightarrow> js_error + QuizQuestion \<times> int" where
  "gradeQuestion answers q calculatedScore =
     (case getProperty answers (propertyKey (qid q)) of
        InheritedMember \<Rightarrow> Inl TypeError
      | found \<Rightarrow>
         (let ua = (case found of OwnString a \<Rightarrow> Some a | _ \<Rightarrow> None);
              userAnswerProcessed = map_option (\<lambda>a. toLowerCase (trim a)) ua;
              correct = (case correctAnswer q of
                           JString c \<Rightarrow> userAnswerProcessed = Some (toLowerCase (trim c))
                         | NotAString \<Rightarrow> False)
          in Inr (q\<lparr>userAnswer := ua, isCorrect := Some correct\<rparr>,
                  if correct then calculatedScore + 1 else calculatedScore)))"

fun gradeAll ::
  "(string \<rightharpoonup> string) \<Rightarrow> QuizQuestion list \<Rightarrow> int \<Rightarrow> js_error + QuizQuestion list \<times> int" where
  "gradeAll answers [] calculatedScore = Inr ([], calculatedScore)"
| "gradeAll answers (q # qs) calculatedScore =
     (case gradeQuestion answers q calculatedScore of
        Inl err \<Rightarrow> Inl err
      | Inr (q', s') \<Rightarrow>
          (case gradeAll answers qs s' of
             Inl err \<Rightarrow> Inl err
           | Inr (qs', s'') \<Rightarrow> Inr (q' # qs', s'')))"

section \<open>The content store\<close>

text \<open>
  Modelled from the spec: the provider \<open>UploadedContentContext\<close> (\<open>addQuizResult\<close>,
  \<open>getQuizzesForContent\<close>) is not among the sources. \<open>addQuizResult\<close> appends a quiz to the
  history associated with a content id and does not require the material to exist;
  \<open>getQuizzesForContent\<close> returns the history in insertion order, or the empty sequence.
\<close>

type_synonym content_store = "string \<rightharpoonup> Quiz list"

definition getQuizzesForContent :: "content_store \<Rightarrow> string \<Rightarrow> Quiz list" where
  "getQuizzesForContent st contentId = (case st contentId of None \<Rightarrow> [] | Some h \<Rightarrow> h)"

definition addQuizResult :: "string \<Rightarrow> Quiz \<Rightarrow> content_store \<Rightarrow> content_store" where
  "addQuizResult contentId quiz st = st(contentId \<mapsto> getQuizzesForContent st contentId @ [quiz])"

section \<open>The quiz page\<close>

text \<open>
  The state hooks of \<open>QuizPage\<close>, whether the timeout held by \<open>timerRef\<close> is pending, and
  the content store the page reaches through its context.
\<close>

record page =
  questions :: "QuizQuestion list"
  currentQuestionIndex :: int
  userAnswers :: "string \<rightharpoonup> string"
  timeLeft :: int
  quizState :: quiz_state
  score :: int
  feedback :: "string option"
  error :: "string option"
  timerPending :: bool
  store :: content_store

text \<open>
  What a call reads besides the state: the constant \<open>DEFAULT_QUIZ_DURATION_SECONDS\<close> (its
  file is not among the sources, so it is a parameter), the route parameter \<open>contentId\<close>,
  the material found for it, and the clock (\<open>Date.now()\<close> printed, and the ISO time stamp).
\<close>

record env =
  DEFAULT_QUIZ_DURATION_SECONDS :: int
  contentId :: "string option"
  material :: "StudyMaterial option"
  dateNow :: string
  isoString :: string

definition initialPage :: "env \<Rightarrow> content_store \<Rightarrow> page" where
  "initialPage e st =
     \<lparr>questions = [], currentQuestionIndex = 0, userAnswers = Map.empty,
      timeLeft = DEFAULT_QUIZ_DURATION_SECONDS e, quizState = Loading, score = 0,
      feedback = None, error = None, timerPending = False, store = st\<rparr>"

text \<open>\<open>material?.extractedText\<close>\<close>

definition materialText :: "env \<Rightarrow> string option" where
  "materialText e = (case material e of None \<Rightarrow> None | Some m \<Rightarrow> extractedText m)"

subsection \<open>Loading the questions\<close>

text \<open>
  \<open>generatedQuestions.map(q => ({...q, id: q.id || `q-${...}`}))\<close>. The suffixes that
  \<open>Math.random().toString(36).substr(2, 9)\<close> yields are the sequence \<open>rnd\<close>; a draw is made
  only for a question whose id is falsy.
\<close>

fun assignIds :: "(nat \<Rightarrow> string) \<Rightarrow> nat \<Rightarrow> QuizQuestion list \<Rightarrow> QuizQuestion list" where
  "assignIds rnd k [] = []"
| "assignIds rnd k (q # qs) =
     (if truthy (qid q) then q # assignIds rnd k qs
      else q\<lparr>qid := Some (''q-'' @ rnd k)\<rparr> # assignIds rnd (Suc k) qs)"

text \<open>\<open>loadQuestions\<close> up to its \<open>await\<close>.\<close>

definition loadQuestions_request :: "env \<Rightarrow> page \<Rightarrow> page" where
  "loadQuestions_request e p =
     (if \<not> truthy (materialText e)
      then p\<lparr>error := Some ''Content not found or empty. Cannot generate quiz.'',
             quizState := Results\<rparr>
      else p\<lparr>quizState := Loading, error := None\<rparr>)"

text \<open>The rest of \<open>loadQuestions\<close>, once \<open>generateQuizQuestions\<close> has settled.\<close>

definition loadQuestions_settle ::
  "env \<Rightarrow> (nat \<Rightarrow> string) \<Rightarrow> QuizQuestion list settled \<Rightarrow> page \<Rightarrow> page" where
  "loadQuestions_settle e rnd outcome p =
     (case outcome of
        Resolved generatedQuestions \<Rightarrow>
          if length generatedQuestions = 0
          then p\<lparr>error := Some ''Could not generate quiz. Content might be too short or AI service unavailable.'',
                 quizState := Results\<rparr>
          else p\<lparr>questions := assignIds rnd 0 generatedQuestions,
                 quizState := Taking,
                 timeLeft := DEFAULT_QUIZ_DURATION_SECONDS e\<rparr>
      | Rejected \<Rightarrow>
          p\<lparr>error := Some ''Failed to load quiz. Check connection or API key.'',
            quizState := Results\<rparr>)"

text \<open>\<open>loadQuestions\<close> run to its end; the gateway is called only past the first test.\<close>

definition loadQuestions ::
  "env \<Rightarrow> (nat \<Rightarrow> string) \<Rightarrow> QuizQuestion list settled \<Rightarrow> page \<Rightarrow> page" where
  "loadQuestions e rnd outcome p =
     (if \<not> truthy (materialText e) then loadQuestions_request e p
      else loadQuestions_settle e rnd outcome (loadQuestions_request e p))"

subsection \<open>Submitting\<close>

text \<open>
  A handler or an effect is a closure of one render: what it reads of the state
  (\<open>quizState\<close>, \<open>questions\<close>, \<open>userAnswers\<close>, \<open>timeLeft\<close>) are the values of that render,
  the page \<open>r\<close>; what it sets and what it reaches through a ref or the context goes to the
  page \<open>p\<close> as it is when the call runs. Right after a render the two are the same page.
\<close>

text \<open>
  How a call of \<open>handleSubmitQuiz\<close> made by the render \<open>r\<close> ends its synchronous part: it
  returns at the guard, it raises while grading, or it reaches the \<open>await\<close> of the feedback
  request.
\<close>

datatype call_outcome = Skipped | Raised js_error | Awaiting

definition submitOutcome :: "page \<Rightarrow> call_outcome" where
  "submitOutcome r =
     (if quizState r = Submitting \<or> quizState r = Results then Skipped
      else case gradeAll (userAnswers r) (questions r) 0 of
             Inl err \<Rightarrow> Raised err
           | Inr graded \<Rightarrow> Awaiting)"

text \<open>
  \<open>handleSubmitQuiz\<close> up to its \<open>await\<close>. The state \<open>submitting\<close> is set and the timeout is
  cleared before the grading, so they stay when the grading raises; the questions, the
  score and the stored quiz follow the grading.
\<close>

definition handleSubmitQuiz_request :: "env \<Rightarrow> page \<Rightarrow> page \<Rightarrow> page" where
  "handleSubmitQuiz_request e r p =
     (if quizState r = Submitting \<or> quizState r = Results then p
      else let p1 = p\<lparr>quizState := Submitting, timerPending := False\<rparr>
           in case gradeAll (userAnswers r) (questions r) 0 of
                Inl err \<Rightarrow> p1
              | Inr (answeredQuestions, calculatedScore) \<Rightarrow>
                 (let p2 = p1\<lparr>questions := answeredQuestions, score := calculatedScore\<rparr>
                  in if truthy (contentId e)
                     then let cid = propertyKey (contentId e);
                              quizResult =
                                \<lparr>quiz_id = ''quiz_'' @ dateNow e, quiz_contentId = cid,
                                 quiz_questions = answeredQuestions,
                                 quiz_score = Some calculatedScore,
                                 quiz_timestamp = isoString e,
                                 quiz_durationSeconds =
                                   DEFAULT_QUIZ_DURATION_SECONDS e - timeLeft r\<rparr>
                          in p2\<lparr>store := addQuizResult cid quizResult (store p2)\<rparr>
                     else p2))"

text \<open>
  The rest of \<open>handleSubmitQuiz\<close>, run on the page of that moment once
  \<open>generateFeedbackOnQuiz\<close> has settled.
\<close>

definition settleFeedback :: "string settled \<Rightarrow> page \<Rightarrow> page" where
  "settleFeedback generatedFeedback p =
     (case generatedFeedback of
        Resolved fb \<Rightarrow> p\<lparr>feedback := Some fb, quizState := Results\<rparr>
      | Rejected \<Rightarrow> p\<lparr>feedback := Some ''Could not generate AI feedback.'', quizState := Results\<rparr>)"

text \<open>
  \<open>handleSubmitQuiz\<close> run to its end with nothing in between: the rest runs only when the
  call has reached the \<open>await\<close>.
\<close>

definition handleSubmitQuiz :: "env \<Rightarrow> string settled \<Rightarrow> page \<Rightarrow> page \<Rightarrow> page" where
  "handleSubmitQuiz e generatedFeedback r p =
     (case submitOutcome r of
        Awaiting \<Rightarrow> settleFeedback generatedFeedback (handleSubmitQuiz_request e r p)
      | ended \<Rightarrow> handleSubmitQuiz_request e r p)"

text \<open>
  Whether the render \<open>r\<close> shows the button \<open>Submit Quiz\<close>: the page is neither loading nor
  showing results, it has a current question while taking, and the current question is
  the last one.
\<close>

definition submitButtonShown :: "page \<Rightarrow> bool" where
  "submitButtonShown r =
     (if quizState r = Taking
      then 0 \<le> currentQuestionIndex r \<and> currentQuestionIndex r < int (length (questions r))
           \<and> \<not> currentQuestionIndex r < int (length (questions r)) - 1
      else quizState r = Submitting
           \<and> \<not> currentQuestionIndex r < int (length (questions r)) - 1)"

subsection \<open>The countdown\<close>

text \<open>
  The body of the timer effect of the render \<open>r\<close>, and its cleanup. The effect calls
  \<open>handleSubmitQuiz\<close> without awaiting it: it is over when the call reaches its \<open>await\<close>.
\<close>

definition timerEffect :: "env \<Rightarrow> page \<Rightarrow> page \<Rightarrow> page" where
  "timerEffect e r p =
     (if quizState r = Taking \<and> timeLeft r > 0 then p\<lparr>timerPending := True\<rparr>
      else if timeLeft r = 0 \<and> quizState r = Taking then handleSubmitQuiz_request e r p
      else p)"

definition timerCleanup :: "page \<Rightarrow> page" where
  "timerCleanup p = p\<lparr>timerPending := False\<rparr>"

text \<open>
  One tick: the pending timeout fires and runs \<open>setTimeLeft(prevTime => prevTime - 1)\<close>,
  the page renders, the cleanup of the previous effect runs and the effect of the new
  render runs. Without a pending timeout nothing happens.
\<close>

definition renderAfterTimeout :: "page \<Rightarrow> page" where
  "renderAfterTimeout p = timerCleanup (p\<lparr>timeLeft := timeLeft p - 1\<rparr>)"

definition tick :: "env \<Rightarrow> page \<Rightarrow> page" where
  "tick e p =
     (if timerPending p
      then let r = renderAfterTimeout p in timerEffect e r r
      else p)"

fun ticks :: "nat \<Rightarrow> env \<Rightarrow> page \<Rightarrow> page" where
  "ticks 0 e p = p"
| "ticks (Suc n) e p = ticks n e (tick e p)"

subsection \<open>Answers and navigation\<close>

definition handleAnswerChange :: "string \<Rightarrow> string \<Rightarrow> page \<Rightarrow> page" where
  "handleAnswerChange questionId answer p =
     p\<lparr>userAnswers := (userAnswers p)(questionId \<mapsto> answer)\<rparr>"

text \<open>The handlers of the buttons \<open>Previous\<close> and \<open>Next\<close>.\<close>

definition goPrevious :: "page \<Rightarrow> page" where
  "goPrevious p = p\<lparr>currentQuestionIndex := max 0 (currentQuestionIndex p - 1)\<rparr>"

definition goNext :: "page \<Rightarrow> page" where
  "goNext p =
     p\<lparr>currentQuestionIndex :=
         min (int (length (questions p)) - 1) (currentQuestionIndex p + 1)\<rparr>"

subsection \<open>The results view\<close>

text \<open>\<open>questions.length > 0 ? (score / questions.length) * 100 : 0\<close>\<close>

definition resultsPercentage :: "page \<Rightarrow> rat option" where
  "resultsPercentage p =
     (if length (questions p) > 0
      then map_option (\<lambda>r. fl (r * 100))
             (jsDivide (of_int (score p)) (of_nat (length (questions p))))
      else Some 0)"

text \<open>The number that \<open>CircularProgress\<close> prints before the percent sign.\<close>

definition progressLabel :: "rat \<Rightarrow> int" where
  "progressLabel percentage = mathRound percentage"

section \<open>The dashboard\<close>

text \<open>
  \<open>getAverageQuizScore\<close>. The list \<open>studyMaterials\<close> and the lookup \<open>getQuizzesForContent\<close>
  come from the context and are parameters here; the lookup may answer \<open>undefined\<close>
  (\<open>None\<close>), which \<open>quizzes?.forEach\<close> skips. The two nested \<open>forEach\<close> loops thread the
  pair of counters \<open>(totalScore, totalQuestionsInScoredQuizzes)\<close>; each \<open>+=\<close> is a
  rounded addition of doubles.
\<close>

definition countQuiz :: "Quiz \<Rightarrow> rat \<times> rat \<Rightarrow> rat \<times> rat" where
  "countQuiz quiz acc =
     (case quiz_score quiz of
        Some s \<Rightarrow>
          if length (quiz_questions quiz) > 0
          then (fl (fst acc + of_int s), fl (snd acc + of_nat (length (quiz_questions quiz))))
          else acc
      | None \<Rightarrow> acc)"

fun countQuizzes :: "Quiz list \<Rightarrow> rat \<times> rat \<Rightarrow> rat \<times> rat" where
  "countQuizzes [] acc = acc"
| "countQuizzes (quiz # quizzes) acc = countQuizzes quizzes (countQuiz quiz acc)"

fun countMaterials ::
  "(string \<Rightarrow> Quiz list option) \<Rightarrow> StudyMaterial list \<Rightarrow> rat \<times> rat \<Rightarrow> rat \<times> rat" where
  "countMaterials getQuizzes [] acc = acc"
| "countMaterials getQuizzes (m # ms) acc =
     countMaterials getQuizzes ms
       (case getQuizzes (material_id m) of
          None \<Rightarrow> acc
        | Some quizzes \<Rightarrow> countQuizzes quizzes acc)"

definition getAverageQuizScore ::
  "StudyMaterial list \<Rightarrow> (string \<Rightarrow> Quiz list option) \<Rightarrow> rat option" where
  "getAverageQuizScore studyMaterials getQuizzes =
     (let (totalScore, totalQuestionsInScoredQuizzes) =
            countMaterials getQuizzes studyMaterials (0, 0)
      in if totalQuestionsInScoredQuizzes = 0 then Some 0
         else map_option (\<lambda>r. parseFloat (toFixed 1 (fl (r * 100))))
                (jsDivide totalScore totalQuestionsInScoredQuizzes))"

text \<open>
  \<open>lastQuizScore\<close> of \<open>MaterialCard\<close>, as the number its string denotes: \<open>None\<close> is the
  \<open>null\<close> of the source (nothing is shown), the inner option is the division.
\<close>

definition lastQuizScore :: "Quiz list option \<Rightarrow> rat option option" where
  "lastQuizScore quizzes =
     (case quizzes of
        None \<Rightarrow> None
      | Some qs \<Rightarrow>
          if length qs > 0
          then (let lastQuiz = last qs in
                case quiz_score lastQuiz of
                  Some s \<Rightarrow>
                    if length (quiz_questions lastQuiz) > 0
                    then Some (map_option (\<lambda>r. toFixed 0 (fl (r * 100)))
                                 (jsDivide (of_int s) (of_nat (length (quiz_questions lastQuiz)))))
                    else None
                | None \<Rightarrow> None)
          else None)"

section \<open>The dashboard average as the specification words it\<close>

text \<open>
  All stored quizzes of all materials, in order; a quiz counts when its score is a number
  and it has at least one question; the two sums run over the quizzes that count.
\<close>

definition spec_allQuizzes :: "StudyMaterial list \<Rightarrow> (string \<Rightarrow> Quiz list option) \<Rightarrow> Quiz list" where
  "spec_allQuizzes studyMaterials getQuizzes =
     concat (map (\<lambda>m. case getQuizzes (material_id m) of None \<Rightarrow> [] | Some quizzes \<Rightarrow> quizzes)
               studyMaterials)"

definition spec_counted :: "Quiz \<Rightarrow> bool" where
  "spec_counted quiz = (quiz_score quiz \<noteq> None \<and> quiz_questions quiz \<noteq> [])"





section \<open>Example data\<close>

definition exampleQuestion :: "string option \<Rightarrow> string \<Rightarrow> QuizQuestion" where
  "exampleQuestion i c =
     \<lparr>qid = i, questionText = ''What is the capital of France?'', qtype = ShortAnswer,
      options = None, correctAnswer = JString c, userAnswer = None, isCorrect = None\<rparr>"

definition exampleEnv :: env where
  "exampleEnv =
     \<lparr>DEFAULT_QUIZ_DURATION_SECONDS = 3, contentId = Some ''c1'',
      material = Some \<lparr>material_id = ''c1'', title = ''Capitals'',
                        extractedText = Some ''Paris is the capital of France.''\<rparr>,
      dateNow = ''1700000000000'', isoString = ''2023-11-14T22:13:20.000Z''\<rparr>"

text \<open>A sequence of suffixes without repetition: \<open>a\<close>, \<open>aa\<close>, \<open>aaa\<close>, ...\<close>

definition exampleRandom :: "nat \<Rightarrow> string" where
  "exampleRandom k = replicate (Suc k) (CHR ''a'')"

text \<open>What the gateway answers: one question with an id and one without.\<close>

definition exampleGenerated :: "QuizQuestion list" where
  "exampleGenerated = [exampleQuestion (Some ''q1'') ''Paris'', exampleQuestion None ''Paris'']"

text \<open>A gateway answer in which two questions carry the same id.\<close>

definition exampleDuplicated :: "QuizQuestion list" where
  "exampleDuplicated = [exampleQuestion (Some ''q1'') ''Paris'', exampleQuestion (Some ''q1'') ''Rome'']"

text \<open>The page once the questions are loaded, and the same page with two answers typed in.\<close>

definition exampleTaking :: page where
  "exampleTaking =
     loadQuestions exampleEnv exampleRandom (Resolved exampleGenerated)
       (initialPage exampleEnv Map.empty)"

definition exampleAnswered :: page where
  "exampleAnswered =
     handleAnswerChange ''q-a'' ''paris,'' (handleAnswerChange ''q1'' ''  paris '' exampleTaking)"

text \<open>Two materials, the first with a quiz scored 3 of 5 and the second with one scored 4 of 4.\<close>

definition exampleQuiz :: "string \<Rightarrow> int \<Rightarrow> nat \<Rightarrow> Quiz" where
  "exampleQuiz c s n =
     \<lparr>quiz_id = ''quiz_1700000000000'', quiz_contentId = c,
      quiz_questions = replicate n (exampleQuestion (Some ''q1'') ''Paris''),
      quiz_score = Some s, quiz_timestamp = ''2023-11-14T22:13:20.000Z'',
      quiz_durationSeconds = 60\<rparr>"

definition exampleMaterials :: "StudyMaterial list" where
  "exampleMaterials =
     [\<lparr>material_id = ''m1'', title = ''Capitals'', extractedText = Some ''Paris''\<rparr>,
      \<lparr>material_id = ''m2'', title = ''Rivers'', extractedText = Some ''Seine''\<rparr>]"



text \<open>
  The render in which the countdown of the answered page reaches zero, the user being on
  the last question.
\<close>

definition exampleExpired :: page where
  "exampleExpired =
     renderAfterTimeout
       (ticks 2 exampleEnv
          (timerEffect exampleEnv (goNext exampleAnswered) (goNext exampleAnswered)))"

text \<open>
  A gateway answer whose second question carries the id \<open>constructor\<close>, the page loaded
  from it, and that page with a matching answer to the first question and none to the
  second.
\<close>

definition exampleInherited :: "QuizQuestion list" where
  "exampleInherited =
     [exampleQuestion (Some ''q1'') ''Paris'', exampleQuestion (Some ''constructor'') ''Rome'']"

definition exampleInheritedTaking :: page where
  "exampleInheritedTaking =
     loadQuestions exampleEnv exampleRandom (Resolved exampleInherited)
       (initialPage exampleEnv Map.empty)"

definition exampleInheritedAnswered :: page where
  "exampleInheritedAnswered =
     goNext (handleAnswerChange ''q1'' ''  paris '' exampleInheritedTaking)"

section \<open>Facts about grading\<close>

lemma gradeQuestion_raises_iff:
  "(\<exists>err. gradeQuestion answers q s = Inl err) \<longleftrightarrow>
     getProperty answers (propertyKey (qid q)) = InheritedMember"
  by (cases "getProperty answers (propertyKey (qid q))") (simp_all add: gradeQuestion_def Let_def)

lemma getProperty_own:
  "getProperty answers k \<noteq> InheritedMember \<Longrightarrow>
     (case getProperty answers k of OwnString a \<Rightarrow> Some a | _ \<Rightarrow> None) = answers k"
  by (cases "answers k") (simp_all add: getProperty_def split: if_splits)

lemma gradeQuestion_rule:
  assumes "gradeQuestion answers q s = Inr (q', s')"
  shows "q' = q\<lparr>userAnswer := answers (propertyKey (qid q)),
                 isCorrect :=
                   Some (\<exists>a c. answers (propertyKey (qid q)) = Some a
                               \<and> correctAnswer q = JString c
                               \<and> toLowerCase (trim a) = toLowerCase (trim c))\<rparr>
    \<and> s' = (if isCorrect q' = Some True then s + 1 else s)"
proof -
  let ?k = "propertyKey (qid q)"
  have n: "getProperty answers ?k \<noteq> InheritedMember"
    using assms gradeQuestion_raises_iff [of answers q s] by auto
  note own = getProperty_own [OF n]
  show ?thesis
  proof (cases "getProperty answers ?k")
    case Undefined
    then have a: "answers ?k = None" using own by simp
    show ?thesis using assms Undefined a
      by (cases "correctAnswer q") (auto simp: gradeQuestion_def Let_def)
  next
    case (OwnString v)
    then have a: "answers ?k = Some v" using own by simp
    show ?thesis using assms OwnString a
      by (cases "correctAnswer q") (auto simp: gradeQuestion_def Let_def)
  next
    case InheritedMember
    then show ?thesis using n by simp
  qed
qed

lemma gradeAll_raises_iff:
  "(\<exists>err. gradeAll answers qs s = Inl err) \<longleftrightarrow>
     (\<exists>q \<in> set qs. getProperty answers (propertyKey (qid q)) = InheritedMember)"
proof (induction qs arbitrary: s)
  case Nil
  show ?case by simp
next
  case (Cons q qs)
  show ?case
  proof (cases "gradeQuestion answers q s")
    case (Inl err)
    then show ?thesis using gradeQuestion_raises_iff [of answers q s] by auto
  next
    case (Inr r)
    obtain q' s' where r: "r = (q', s')" by (cases r)
    have n: "getProperty answers (propertyKey (qid q)) \<noteq> InheritedMember"
      using Inr gradeQuestion_raises_iff [of answers q s] by auto
    show ?thesis using Inr r n Cons.IH [of s'] by (auto split: sum.splits)
  qed
qed

lemma gradeAll_rule:
  "gradeAll answers qs s = Inr (qs', s') \<Longrightarrow>
     length qs' = length qs
     \<and> (\<forall>i<length qs.
           qs' ! i =
             (qs ! i)\<lparr>userAnswer := answers (propertyKey (qid (qs ! i))),
                       isCorrect :=
                         Some (\<exists>a c. answers (propertyKey (qid (qs ! i))) = Some a
                                     \<and> correctAnswer (qs ! i) = JString c
                                     \<and> toLowerCase (trim a) = toLowerCase (trim c))\<rparr>)
     \<and> s' = s + int (length (filter (\<lambda>q. isCorrect q = Some True) qs'))"
proof (induction qs arbitrary: s qs' s')
  case Nil
  then show ?case by simp
next
  case (Cons q qs)
  from Cons.prems obtain q1 s1 where g1: "gradeQuestion answers q s = Inr (q1, s1)"
    by (auto split: sum.splits)
  from Cons.prems g1 obtain qs1 s2 where g2: "gradeAll answers qs s1 = Inr (qs1, s2)"
    by (auto split: sum.splits)
  have e: "qs' = q1 # qs1" "s' = s2" using Cons.prems g1 g2 by auto
  note r1 = gradeQuestion_rule [OF g1]
  note r2 = Cons.IH [OF g2]
  have len: "length qs' = length (q # qs)" using e r2 by simp
  have s1: "s1 = (if isCorrect q1 = Some True then s + 1 else s)" using r1 by blast
  have s2: "s2 = s1 + int (length (filter (\<lambda>q. isCorrect q = Some True) qs1))" using r2 by blast
  have sc: "s' = s + int (length (filter (\<lambda>q. isCorrect q = Some True) qs'))"
    unfolding e s2 s1 by simp
  have each: "qs' ! i =
             ((q # qs) ! i)\<lparr>userAnswer := answers (propertyKey (qid ((q # qs) ! i))),
                       isCorrect :=
                         Some (\<exists>a c. answers (propertyKey (qid ((q # qs) ! i))) = Some a
                                     \<and> correctAnswer ((q # qs) ! i) = JString c
                                     \<and> toLowerCase (trim a) = toLowerCase (trim c))\<rparr>"
    if "i < length (q # qs)" for i
  proof (cases i)
    case 0
    then show ?thesis using e r1 by simp
  next
    case (Suc j)
    then have "j < length qs" using that by simp
    then show ?thesis using Suc e r2 by simp
  qed
  show ?case using len sc each by blast
qed

section \<open>Facts about submission\<close>

lemma submitOutcome_Awaiting:
  "submitOutcome r = Awaiting \<longleftrightarrow>
     quizState r \<noteq> Submitting \<and> quizState r \<noteq> Results
     \<and> (\<exists>graded. gradeAll (userAnswers r) (questions r) 0 = Inr graded)"
  by (auto simp: submitOutcome_def split: sum.splits)

lemma submitOutcome_Raised:
  "submitOutcome r = Raised TypeError \<longleftrightarrow>
     quizState r \<noteq> Submitting \<and> quizState r \<noteq> Results
     \<and> (\<exists>q \<in> set (questions r).
           getProperty (userAnswers r) (propertyKey (qid q)) = InheritedMember)"
proof -
  have "(\<exists>err. gradeAll (userAnswers r) (questions r) 0 = Inl err)
          \<longleftrightarrow> gradeAll (userAnswers r) (questions r) 0 = Inl TypeError"
    by (metis js_error.exhaust)
  then show ?thesis
    using gradeAll_raises_iff [of "userAnswers r" "questions r" 0]
    by (auto simp: submitOutcome_def split: sum.splits)
qed

lemma handleSubmitQuiz_request_Skipped:
  "quizState r = Submitting \<or> quizState r = Results \<Longrightarrow> handleSubmitQuiz_request e r p = p"
  by (simp add: handleSubmitQuiz_request_def)

lemma handleSubmitQuiz_request_Raised:
  "submitOutcome r = Raised err \<Longrightarrow>
     handleSubmitQuiz_request e r p = p\<lparr>quizState := Submitting, timerPending := False\<rparr>"
  by (auto simp: submitOutcome_def handleSubmitQuiz_request_def Let_def split: sum.splits if_splits)

lemma handleSubmitQuiz_request_Awaiting:
  assumes "submitOutcome r = Awaiting"
    and "gradeAll (userAnswers r) (questions r) 0 = Inr (answered, calc)"
  shows "handleSubmitQuiz_request e r p =
     p\<lparr>quizState := Submitting, timerPending := False, questions := answered, score := calc,
       store := (if truthy (contentId e)
                 then addQuizResult (propertyKey (contentId e))
                        \<lparr>quiz_id = ''quiz_'' @ dateNow e, quiz_contentId = propertyKey (contentId e),
                         quiz_questions = answered, quiz_score = Some calc,
                         quiz_timestamp = isoString e,
                         quiz_durationSeconds = DEFAULT_QUIZ_DURATION_SECONDS e - timeLeft r\<rparr>
                        (store p)
                 else store p)\<rparr>"
  using assms
  by (auto simp: submitOutcome_Awaiting handleSubmitQuiz_request_def Let_def)

lemma settleFeedback_fields:
  "questions (settleFeedback fb p) = questions p"
  "score (settleFeedback fb p) = score p"
  "store (settleFeedback fb p) = store p"
  "quizState (settleFeedback fb p) = Results"
  "userAnswers (settleFeedback fb p) = userAnswers p"
  "timeLeft (settleFeedback fb p) = timeLeft p"
  "timerPending (settleFeedback fb p) = timerPending p"
  "feedback (settleFeedback fb p) =
     Some (case fb of Resolved t \<Rightarrow> t | Rejected \<Rightarrow> ''Could not generate AI feedback.'')"
  by (simp_all add: settleFeedback_def split: settled.splits)

text \<open>
  The grading rule where the grading returns: every question gets the answer recorded
  under its id and is marked correct exactly when that answer exists, the correct answer
  is a string, and the two are equal once trimmed and lower-cased; the score is the number
  of questions so marked. The grading raises exactly when some question without a
  recorded answer has an id that names a member of \<open>Object.prototype\<close>.
\<close>

lemma graded_submission_rule:
  assumes "submitOutcome r = Awaiting"
  shows "length (questions (handleSubmitQuiz e fb r p)) = length (questions r)
    \<and> (\<forall>i<length (questions r).
          questions (handleSubmitQuiz e fb r p) ! i =
            (questions r ! i)
              \<lparr>userAnswer := userAnswers r (propertyKey (qid (questions r ! i))),
               isCorrect :=
                 Some (\<exists>a c. userAnswers r (propertyKey (qid (questions r ! i))) = Some a
                             \<and> correctAnswer (questions r ! i) = JString c
                             \<and> toLowerCase (trim a) = toLowerCase (trim c))\<rparr>)
    \<and> score (handleSubmitQuiz e fb r p) =
         int (length (filter (\<lambda>q. isCorrect q = Some True) (questions (handleSubmitQuiz e fb r p))))"
proof -
  obtain answered calc where g: "gradeAll (userAnswers r) (questions r) 0 = Inr (answered, calc)"
    using assms by (auto simp: submitOutcome_Awaiting)
  note rq = handleSubmitQuiz_request_Awaiting [OF assms g, of e p]
  have h: "handleSubmitQuiz e fb r p = settleFeedback fb (handleSubmitQuiz_request e r p)"
    using assms by (simp add: handleSubmitQuiz_def)
  have q: "questions (handleSubmitQuiz e fb r p) = answered"
    and s: "score (handleSubmitQuiz e fb r p) = calc"
    by (simp_all add: h settleFeedback_fields rq)
  show ?thesis unfolding q s using gradeAll_rule [OF g] by simp
qed

section \<open>Facts about the countdown\<close>

lemma tick_countdown:
  assumes "quizState p = Taking" "timerPending p" "1 < timeLeft p"
  shows "tick e p = p\<lparr>timeLeft := timeLeft p - 1\<rparr>"
  using assms by (simp add: tick_def timerEffect_def timerCleanup_def renderAfterTimeout_def Let_def)

lemma tick_expire:
  assumes "quizState p = Taking" "timerPending p" "timeLeft p = 1"
  shows "tick e p = handleSubmitQuiz_request e (renderAfterTimeout p) (renderAfterTimeout p)"
  using assms by (simp add: tick_def timerEffect_def timerCleanup_def renderAfterTimeout_def Let_def)

lemma ticks_Suc_right: "ticks (Suc n) e p = tick e (ticks n e p)"
  by (induction n arbitrary: p) simp_all

lemma ticks_countdown:
  "quizState p = Taking \<Longrightarrow> timerPending p \<Longrightarrow> int k < timeLeft p \<Longrightarrow>
     ticks k e p = p\<lparr>timeLeft := timeLeft p - int k\<rparr>"
proof (induction k arbitrary: p)
  case 0
  show ?case by simp
next
  case (Suc k)
  have t: "tick e p = p\<lparr>timeLeft := timeLeft p - 1\<rparr>"
    using Suc.prems by (intro tick_countdown) auto
  have "ticks k e (p\<lparr>timeLeft := timeLeft p - 1\<rparr>) =
          (p\<lparr>timeLeft := timeLeft p - 1\<rparr>)\<lparr>timeLeft := timeLeft (p\<lparr>timeLeft := timeLeft p - 1\<rparr>) - int k\<rparr>"
    using Suc.prems by (intro Suc.IH) auto
  then show ?case using t by (simp add: algebra_simps)
qed

text \<open>
  The countdown on every page: from \<open>D + 1\<close> seconds each of the first \<open>D\<close> ticks takes one
  second off and leaves the rest of the page alone, and the next tick calls
  \<open>handleSubmitQuiz\<close> from the render with zero seconds left.
\<close>

lemma countdown_triggers_submission:
  assumes "quizState p = Taking" and "timeLeft p = int (Suc D)"
  shows "(\<forall>k\<le>D. ticks k e (timerEffect e p p) = p\<lparr>timeLeft := int (Suc D) - int k, timerPending := True\<rparr>)
    \<and> ticks (Suc D) e (timerEffect e p p) =
        handleSubmitQuiz_request e (p\<lparr>timeLeft := 0, timerPending := False\<rparr>)
          (p\<lparr>timeLeft := 0, timerPending := False\<rparr>)"
proof -
  let ?p1 = "p\<lparr>timerPending := True\<rparr>"
  have e1: "timerEffect e p p = ?p1" using assms by (simp add: timerEffect_def)
  have a: "ticks k e ?p1 = p\<lparr>timeLeft := int (Suc D) - int k, timerPending := True\<rparr>"
    if "k \<le> D" for k
  proof -
    have "ticks k e ?p1 = ?p1\<lparr>timeLeft := timeLeft ?p1 - int k\<rparr>"
      using assms that by (intro ticks_countdown) auto
    then show ?thesis using assms by simp
  qed
  have "ticks (Suc D) e ?p1 = tick e (ticks D e ?p1)" by (rule ticks_Suc_right)
  also have "ticks D e ?p1 = p\<lparr>timeLeft := 1, timerPending := True\<rparr>"
    using a [of D] by simp
  also have "tick e (p\<lparr>timeLeft := 1, timerPending := True\<rparr>) =
      handleSubmitQuiz_request e (renderAfterTimeout (p\<lparr>timeLeft := 1, timerPending := True\<rparr>))
        (renderAfterTimeout (p\<lparr>timeLeft := 1, timerPending := True\<rparr>))"
    using assms by (intro tick_expire) auto
  also have "renderAfterTimeout (p\<lparr>timeLeft := 1, timerPending := True\<rparr>)
      = p\<lparr>timeLeft := 0, timerPending := False\<rparr>"
    by (simp add: renderAfterTimeout_def timerCleanup_def)
  finally show ?thesis using a e1 by simp
qed

section \<open>Facts about the generated ids\<close>

lemma assignIds_length: "length (assignIds rnd k qs) = length qs"
  by (induction qs arbitrary: k) simp_all

lemma assignIds_truthy: "q \<in> set (assignIds rnd k qs) \<Longrightarrow> truthy (qid q)"
  by (induction qs arbitrary: k) (auto simp: truthy_def split: if_splits)

lemma assignIds_nth:
  "i < length qs \<Longrightarrow>
     assignIds rnd k qs ! i =
       (if truthy (qid (qs ! i)) then qs ! i
        else (qs ! i)\<lparr>qid := Some (''q-'' @ rnd (k + length (filter (\<lambda>q. \<not> truthy (qid q)) (take i qs))))\<rparr>)"
proof (induction qs arbitrary: k i)
  case Nil
  then show ?case by simp
next
  case (Cons q qs)
  show ?case
  proof (cases i)
    case 0
    then show ?thesis by simp
  next
    case (Suc j)
    then have j: "j < length qs" using Cons.prems by simp
    show ?thesis using Suc Cons.IH [OF j] by simp
  qed
qed

lemma assignIds_ids:
  "x \<in> set (map qid (assignIds rnd k qs)) \<Longrightarrow>
     (\<exists>q \<in> set qs. truthy (qid q) \<and> x = qid q) \<or> (\<exists>j\<ge>k. x = Some (''q-'' @ rnd j))"
proof (induction qs arbitrary: k)
  case Nil
  then show ?case by simp
next
  case (Cons q qs)
  show ?case
  proof (cases "truthy (qid q)")
    case True
    then have "x = qid q \<or> x \<in> set (map qid (assignIds rnd k qs))"
      using Cons.prems by auto
    then show ?thesis using True Cons.IH [of k] by auto
  next
    case False
    then have "x = Some (''q-'' @ rnd k) \<or> x \<in> set (map qid (assignIds rnd (Suc k) qs))"
      using Cons.prems by auto
    then show ?thesis
    proof
      assume "x = Some (''q-'' @ rnd k)"
      then show ?thesis by auto
    next
      assume "x \<in> set (map qid (assignIds rnd (Suc k) qs))"
      from Cons.IH [OF this] show ?thesis
        by (auto intro: Suc_leD)
    qed
  qed
qed

lemma assignIds_distinct:
  assumes "distinct (map qid (filter (\<lambda>q. truthy (qid q)) qs))"
    and "inj rnd"
    and "\<forall>q \<in> set qs. \<forall>j. qid q \<noteq> Some (''q-'' @ rnd j)"
  shows "distinct (map qid (assignIds rnd k qs))"
  using assms
proof (induction qs arbitrary: k)
  case Nil
  then show ?case by simp
next
  case (Cons q qs)
  have d: "distinct (map qid (filter (\<lambda>q. truthy (qid q)) qs))"
    using Cons.prems(1) by (simp split: if_splits)
  have f: "\<forall>q \<in> set qs. \<forall>j. qid q \<noteq> Some (''q-'' @ rnd j)"
    using Cons.prems(3) by simp
  note ih = Cons.IH [OF d Cons.prems(2) f]
  show ?case
  proof (cases "truthy (qid q)")
    case True
    have "qid q \<notin> set (map qid (assignIds rnd k qs))"
    proof
      assume "qid q \<in> set (map qid (assignIds rnd k qs))"
      from assignIds_ids [OF this] show False
      proof
        assume "\<exists>q' \<in> set qs. truthy (qid q') \<and> qid q = qid q'"
        then show False using Cons.prems(1) True by auto
      next
        assume "\<exists>j\<ge>k. qid q = Some (''q-'' @ rnd j)"
        then show False using Cons.prems(3) by auto
      qed
    qed
    then show ?thesis using True ih [of k] by simp
  next
    case False
    have "Some (''q-'' @ rnd k) \<notin> set (map qid (assignIds rnd (Suc k) qs))"
    proof
      assume "Some (''q-'' @ rnd k) \<in> set (map qid (assignIds rnd (Suc k) qs))"
      from assignIds_ids [OF this] show False
      proof
        assume "\<exists>q' \<in> set qs. truthy (qid q') \<and> Some (''q-'' @ rnd k) = qid q'"
        then show False using f by metis
      next
        assume "\<exists>j\<ge>Suc k. Some (''q-'' @ rnd k) = Some (''q-'' @ rnd j)"
        then obtain j where "Suc k \<le> j" "rnd k = rnd j" by auto
        then show False using Cons.prems(2) by (auto dest: injD)
      qed
    qed
    then show ?thesis using False ih [of "Suc k"] by simp
  qed
qed

lemma loadQuestions_success:
  "truthy (materialText e) \<Longrightarrow> gs \<noteq> [] \<Longrightarrow>
     loadQuestions e rnd (Resolved gs) p =
       p\<lparr>quizState := Taking, error := None, questions := assignIds rnd 0 gs,
         timeLeft := DEFAULT_QUIZ_DURATION_SECONDS e\<rparr>"
  by (simp add: loadQuestions_def loadQuestions_request_def loadQuestions_settle_def)

lemma inj_exampleRandom: "inj exampleRandom"
proof (rule injI)
  fix x y assume "exampleRandom x = exampleRandom y"
  then have "length (exampleRandom x) = length (exampleRandom y)" by simp
  then show "x = y" by (simp add: exampleRandom_def)
qed

section \<open>Facts about doubles\<close>










lemma fl_zero: "fl 0 = 0"
  by (simp add: fl_def)



lemma floor_half: "\<lfloor>1 / 2 :: rat\<rfloor> = 0"
  by (rule floor_unique) simp_all

section \<open>Facts about the percentages\<close>

lemma countQuiz_skip: "\<not> spec_counted quiz \<Longrightarrow> countQuiz quiz acc = acc"
  by (cases "quiz_score quiz") (auto simp: countQuiz_def spec_counted_def)


lemma countQuizzes_append:
  "countQuizzes (xs @ ys) acc = countQuizzes ys (countQuizzes xs acc)"
  by (induction xs arbitrary: acc) simp_all

lemma countQuizzes_filter:
  "countQuizzes (filter spec_counted quizzes) acc = countQuizzes quizzes acc"
  by (induction quizzes arbitrary: acc) (simp_all add: countQuiz_skip)

lemma countMaterials_flat:
  "countMaterials getQuizzes ms acc = countQuizzes (spec_allQuizzes ms getQuizzes) acc"
proof (induction ms arbitrary: acc)
  case Nil
  show ?case by (simp add: spec_allQuizzes_def)
next
  case (Cons m ms)
  have "spec_allQuizzes (m # ms) getQuizzes =
          (case getQuizzes (material_id m) of None \<Rightarrow> [] | Some quizzes \<Rightarrow> quizzes)
          @ spec_allQuizzes ms getQuizzes"
    by (simp add: spec_allQuizzes_def)
  then show ?case
    by (cases "getQuizzes (material_id m)") (simp_all add: Cons.IH countQuizzes_append)
qed

lemma countMaterials_counted:
  "countMaterials g ms acc = countQuizzes (filter spec_counted (spec_allQuizzes ms g)) acc"
  by (simp add: countMaterials_flat countQuizzes_filter)



lemma getAverageQuizScore_unfold:
  "getAverageQuizScore ms g =
     (if snd (countMaterials g ms (0, 0)) = 0 then Some 0
      else Some (parseFloat (toFixed 1
                   (fl (fl (fst (countMaterials g ms (0, 0)) / snd (countMaterials g ms (0, 0))) * 100)))))"
  by (simp add: getAverageQuizScore_def case_prod_unfold jsDivide_def Let_def)

lemma resultsPercentage_Some: "resultsPercentage p \<noteq> None"
  by (simp add: resultsPercentage_def jsDivide_def)

lemma counted_nonempty_filter:
  "filter (\<lambda>q. quiz_questions q \<noteq> [] \<and> spec_counted q) qs = filter spec_counted qs"
  by (rule filter_cong) (auto simp: spec_counted_def)

lemma spec_allQuizzes_skip:
  "filter spec_counted (spec_allQuizzes ms (\<lambda>c. map_option (filter (\<lambda>q. quiz_questions q \<noteq> [])) (g c)))
     = filter spec_counted (spec_allQuizzes ms g)"
proof (induction ms)
  case Nil
  show ?case by (simp add: spec_allQuizzes_def)
next
  case (Cons m ms)
  then show ?case
    by (cases "g (material_id m)") (simp_all add: spec_allQuizzes_def counted_nonempty_filter)
qed

section \<open>The claims\<close>

text \<open>
  Claim C1 (two submission triggers in succession persist exactly one quiz) is not kept by
  the code. The guard of \<open>handleSubmitQuiz\<close> reads the \<open>quizState\<close> of the render that made
  the handler. In the render in which the countdown reaches zero, with the button
  \<open>Submit Quiz\<close> shown, the timer effect calls the handler and stores one quiz; a click on
  the button of that same render calls the same handler, which still reads \<open>taking\<close>,
  grades again and stores a second quiz for the content id.
\<close>

theorem submit_twice_same_render_two_records:
  "quizState exampleExpired = Taking \<and> timeLeft exampleExpired = 0
   \<and> submitButtonShown exampleExpired
   \<and> length (getQuizzesForContent (store exampleExpired) ''c1'') = 0
   \<and> quizState (timerEffect exampleEnv exampleExpired exampleExpired) = Submitting
   \<and> length (getQuizzesForContent
         (store (timerEffect exampleEnv exampleExpired exampleExpired)) ''c1'') = 1
   \<and> length (getQuizzesForContent
         (store (handleSubmitQuiz_request exampleEnv exampleExpired
                   (timerEffect exampleEnv exampleExpired exampleExpired))) ''c1'') = 2
   \<and> length (getQuizzesForContent
         (store (settleFeedback Rejected (settleFeedback Rejected
                   (handleSubmitQuiz_request exampleEnv exampleExpired
                      (timerEffect exampleEnv exampleExpired exampleExpired))))) ''c1'') = 2"
  by code_simp

text \<open>
  Claim C2 (every question of a submitted quiz is marked correct exactly when its trimmed,
  lower-cased answer equals the trimmed, lower-cased correct answer, and the score counts
  them) is not kept by the code on every quiz. With the answer \<open>paris\<close> between blanks to a
  question whose correct answer is \<open>Paris\<close>, and a second, unanswered question whose id is
  \<open>constructor\<close>, the submission raises while grading: the page stays in \<open>submitting\<close>, no
  question is marked and the score stays zero, although the first answer matches.
\<close>

theorem grading_aborted_by_inherited_member:
  "submitButtonShown exampleInheritedAnswered
   \<and> quizState exampleInheritedAnswered = Taking
   \<and> map qid (questions exampleInheritedAnswered) = [Some ''q1'', Some ''constructor'']
   \<and> map correctAnswer (questions exampleInheritedAnswered) = [JString ''Paris'', JString ''Rome'']
   \<and> userAnswers exampleInheritedAnswered ''q1'' = Some ''  paris ''
   \<and> userAnswers exampleInheritedAnswered ''constructor'' = None
   \<and> toLowerCase (trim ''  paris '') = toLowerCase (trim ''Paris'')
   \<and> submitOutcome exampleInheritedAnswered = Raised TypeError
   \<and> quizState (handleSubmitQuiz exampleEnv (Resolved ''Well done.'')
                   exampleInheritedAnswered exampleInheritedAnswered) = Submitting
   \<and> map isCorrect (questions (handleSubmitQuiz exampleEnv (Resolved ''Well done.'')
                   exampleInheritedAnswered exampleInheritedAnswered)) = [None, None]
   \<and> score (handleSubmitQuiz exampleEnv (Resolved ''Well done.'')
                   exampleInheritedAnswered exampleInheritedAnswered) = 0"
  by code_simp

text \<open>
  Claim C3 (a session never answered reaches \<open>results\<close> when its countdown expires, every
  question unanswered and incorrect) is not kept by the code on every session. The
  countdown of the example runs from 3 to 1 in two ticks; the third tick submits, the
  grading raises on the question whose id is \<open>constructor\<close>, and the page is in
  \<open>submitting\<close> with no question marked; no feedback request is pending and no timeout,
  so it stays there.
\<close>

theorem countdown_expiry_stays_submitting:
  "quizState exampleInheritedTaking = Taking
   \<and> timeLeft exampleInheritedTaking = DEFAULT_QUIZ_DURATION_SECONDS exampleEnv
   \<and> DEFAULT_QUIZ_DURATION_SECONDS exampleEnv = 3
   \<and> map (\<lambda>q. userAnswers exampleInheritedTaking (propertyKey (qid q)))
         (questions exampleInheritedTaking) = [None, None]
   \<and> timeLeft (ticks 2 exampleEnv
                  (timerEffect exampleEnv exampleInheritedTaking exampleInheritedTaking)) = 1
   \<and> quizState (ticks 2 exampleEnv
                   (timerEffect exampleEnv exampleInheritedTaking exampleInheritedTaking)) = Taking
   \<and> submitOutcome (renderAfterTimeout (ticks 2 exampleEnv
         (timerEffect exampleEnv exampleInheritedTaking exampleInheritedTaking))) = Raised TypeError
   \<and> quizState (ticks 3 exampleEnv
                   (timerEffect exampleEnv exampleInheritedTaking exampleInheritedTaking)) = Submitting
   \<and> map isCorrect (questions (ticks 3 exampleEnv
         (timerEffect exampleEnv exampleInheritedTaking exampleInheritedTaking))) = [None, None]
   \<and> quizState (ticks 60 exampleEnv
                   (timerEffect exampleEnv exampleInheritedTaking exampleInheritedTaking)) = Submitting"
  by code_simp

text \<open>
  Claim C4. \<open>loadQuestions\<close> ends in state \<open>results\<close> with an error message, and without the
  state \<open>taking\<close> on the way, in each of three cases: the extracted text of the material
  is absent or empty, the gateway resolves with no question, the gateway rejects.
\<close>

theorem loadQuestions_failures:
  "(\<not> truthy (materialText e) \<longrightarrow>
      loadQuestions e rnd outcome p =
        p\<lparr>error := Some ''Content not found or empty. Cannot generate quiz.'', quizState := Results\<rparr>)
   \<and> (truthy (materialText e) \<and> outcome = Resolved [] \<longrightarrow>
      loadQuestions e rnd outcome p =
        p\<lparr>error := Some ''Could not generate quiz. Content might be too short or AI service unavailable.'',
          quizState := Results\<rparr>)
   \<and> (truthy (materialText e) \<and> outcome = Rejected \<longrightarrow>
      loadQuestions e rnd outcome p =
        p\<lparr>error := Some ''Failed to load quiz. Check connection or API key.'', quizState := Results\<rparr>)
   \<and> (\<not> truthy (materialText e) \<or> outcome = Resolved [] \<or> outcome = Rejected \<longrightarrow>
        quizState (loadQuestions e rnd outcome p) = Results
        \<and> error (loadQuestions e rnd outcome p) \<noteq> None
        \<and> quizState (loadQuestions_request e p) \<noteq> Taking
        \<and> questions (loadQuestions e rnd outcome p) = questions p)"
  by (auto simp: loadQuestions_def loadQuestions_request_def loadQuestions_settle_def)

theorem loadQuestions_failures_witness:
  "\<not> truthy (materialText (exampleEnv\<lparr>material := None\<rparr>))
   \<and> quizState (loadQuestions (exampleEnv\<lparr>material := None\<rparr>) exampleRandom Rejected
        (initialPage exampleEnv Map.empty)) = Results
   \<and> truthy (materialText exampleEnv)
   \<and> error (loadQuestions exampleEnv exampleRandom (Resolved []) (initialPage exampleEnv Map.empty))
       = Some ''Could not generate quiz. Content might be too short or AI service unavailable.''
   \<and> error (loadQuestions exampleEnv exampleRandom Rejected (initialPage exampleEnv Map.empty))
       = Some ''Failed to load quiz. Check connection or API key.''"
proof -
  have h1: "\<not> truthy (materialText (exampleEnv\<lparr>material := None\<rparr>))" by code_simp
  have h2: "truthy (materialText exampleEnv)" by code_simp
  show ?thesis
    using h1 h2
      loadQuestions_failures [where e = "exampleEnv\<lparr>material := None\<rparr>" and rnd = exampleRandom
            and outcome = Rejected and p = "initialPage exampleEnv Map.empty"]
      loadQuestions_failures [where e = exampleEnv and rnd = exampleRandom and outcome = "Resolved []"
            and p = "initialPage exampleEnv Map.empty"]
      loadQuestions_failures [where e = exampleEnv and rnd = exampleRandom and outcome = Rejected
            and p = "initialPage exampleEnv Map.empty"]
    by simp
qed

text \<open>
  Claim C5. When a call of \<open>handleSubmitQuiz\<close> reaches the feedback request, its result is
  the page at the \<open>await\<close> with the feedback set and the state \<open>results\<close>: score, store and
  graded questions are those of the page at the \<open>await\<close>, where the state is \<open>submitting\<close>;
  with a content id the history of that id ends with the quiz of this call; a rejection
  gives the fixed fallback text, a resolution the text received. The same holds of the
  rest of the call run on any later page.
\<close>

theorem feedback_failure_harmless:
  assumes "submitOutcome r = Awaiting"
  shows "handleSubmitQuiz e fb r p = settleFeedback fb (handleSubmitQuiz_request e r p)
    \<and> score (handleSubmitQuiz e fb r p) = score (handleSubmitQuiz_request e r p)
    \<and> store (handleSubmitQuiz e fb r p) = store (handleSubmitQuiz_request e r p)
    \<and> questions (handleSubmitQuiz e fb r p) = questions (handleSubmitQuiz_request e r p)
    \<and> quizState (handleSubmitQuiz_request e r p) = Submitting
    \<and> quizState (handleSubmitQuiz e fb r p) = Results
    \<and> feedback (handleSubmitQuiz e Rejected r p) = Some ''Could not generate AI feedback.''
    \<and> feedback (handleSubmitQuiz e (Resolved t) r p) = Some t
    \<and> (contentId e = Some cid \<and> cid \<noteq> [] \<longrightarrow>
         getQuizzesForContent (store (handleSubmitQuiz e fb r p)) cid =
           getQuizzesForContent (store p) cid @
             [\<lparr>quiz_id = ''quiz_'' @ dateNow e, quiz_contentId = cid,
               quiz_questions = questions (handleSubmitQuiz e fb r p),
               quiz_score = Some (score (handleSubmitQuiz e fb r p)),
               quiz_timestamp = isoString e,
               quiz_durationSeconds = DEFAULT_QUIZ_DURATION_SECONDS e - timeLeft r\<rparr>])
    \<and> score (settleFeedback fb p') = score p'
    \<and> store (settleFeedback fb p') = store p'
    \<and> questions (settleFeedback fb p') = questions p'
    \<and> quizState (settleFeedback fb p') = Results
    \<and> feedback (settleFeedback Rejected p') = Some ''Could not generate AI feedback.''"
proof -
  obtain answered calc where g: "gradeAll (userAnswers r) (questions r) 0 = Inr (answered, calc)"
    using assms by (auto simp: submitOutcome_Awaiting)
  note rq = handleSubmitQuiz_request_Awaiting [OF assms g, of e p]
  have h: "handleSubmitQuiz e fb r p = settleFeedback fb (handleSubmitQuiz_request e r p)" for fb
    using assms by (simp add: handleSubmitQuiz_def)
  have st: "contentId e = Some cid \<and> cid \<noteq> [] \<Longrightarrow>
         getQuizzesForContent (store (handleSubmitQuiz e fb r p)) cid =
           getQuizzesForContent (store p) cid @
             [\<lparr>quiz_id = ''quiz_'' @ dateNow e, quiz_contentId = cid,
               quiz_questions = questions (handleSubmitQuiz e fb r p),
               quiz_score = Some (score (handleSubmitQuiz e fb r p)),
               quiz_timestamp = isoString e,
               quiz_durationSeconds = DEFAULT_QUIZ_DURATION_SECONDS e - timeLeft r\<rparr>]"
    unfolding h
    by (simp add: settleFeedback_fields rq truthy_def propertyKey_def addQuizResult_def
        getQuizzesForContent_def)
  have sub: "quizState (handleSubmitQuiz_request e r p) = Submitting" by (simp add: rq)
  show ?thesis
    using st sub by (simp add: h settleFeedback_fields)
qed

theorem feedback_failure_harmless_witness:
  "submitOutcome exampleAnswered = Awaiting
   \<and> quizState (handleSubmitQuiz_request exampleEnv exampleAnswered exampleAnswered) = Submitting
   \<and> quizState (handleSubmitQuiz exampleEnv Rejected exampleAnswered exampleAnswered) = Results
   \<and> feedback (handleSubmitQuiz exampleEnv Rejected exampleAnswered exampleAnswered)
       = Some ''Could not generate AI feedback.''
   \<and> score (handleSubmitQuiz exampleEnv Rejected exampleAnswered exampleAnswered) = 1
   \<and> store (handleSubmitQuiz exampleEnv Rejected exampleAnswered exampleAnswered)
       = store (handleSubmitQuiz_request exampleEnv exampleAnswered exampleAnswered)
   \<and> map quiz_score (getQuizzesForContent
        (store (handleSubmitQuiz exampleEnv Rejected exampleAnswered exampleAnswered)) ''c1'')
       = [Some 1]"
proof -
  have h: "submitOutcome exampleAnswered = Awaiting" by code_simp
  have s: "score (handleSubmitQuiz_request exampleEnv exampleAnswered exampleAnswered) = 1"
    by code_simp
  have q: "map quiz_score (getQuizzesForContent
        (store (handleSubmitQuiz_request exampleEnv exampleAnswered exampleAnswered)) ''c1'')
       = [Some 1]"
    by code_simp
  note t = feedback_failure_harmless [OF h, of exampleEnv Rejected exampleAnswered]
  have a: "quizState (handleSubmitQuiz_request exampleEnv exampleAnswered exampleAnswered) = Submitting
    \<and> quizState (handleSubmitQuiz exampleEnv Rejected exampleAnswered exampleAnswered) = Results
    \<and> feedback (handleSubmitQuiz exampleEnv Rejected exampleAnswered exampleAnswered)
       = Some ''Could not generate AI feedback.''"
    using t by blast
  have b: "score (handleSubmitQuiz exampleEnv Rejected exampleAnswered exampleAnswered)
       = score (handleSubmitQuiz_request exampleEnv exampleAnswered exampleAnswered)"
    using t by blast
  have c: "store (handleSubmitQuiz exampleEnv Rejected exampleAnswered exampleAnswered)
       = store (handleSubmitQuiz_request exampleEnv exampleAnswered exampleAnswered)"
    using t by blast
  have b': "score (handleSubmitQuiz exampleEnv Rejected exampleAnswered exampleAnswered) = 1"
    by (simp only: b s)
  have q': "map quiz_score (getQuizzesForContent
        (store (handleSubmitQuiz exampleEnv Rejected exampleAnswered exampleAnswered)) ''c1'')
       = [Some 1]"
    by (simp only: c q)
  show ?thesis using h a b' c q' by blast
qed

text \<open>
  Claim C6 (every submission stores, through \<open>addQuizResult\<close> and under the content id, a
  quiz with the score, the graded questions and the elapsed time) is not kept by the code
  on every submission. On the page with a content id and an unanswered question whose id
  is \<open>constructor\<close>, the submission raises while grading, before \<open>addQuizResult\<close> is
  called: the history of the content id stays empty.
\<close>

theorem submission_raises_nothing_persisted:
  "submitButtonShown exampleInheritedAnswered
   \<and> quizState exampleInheritedAnswered = Taking
   \<and> contentId exampleEnv = Some ''c1''
   \<and> submitOutcome exampleInheritedAnswered = Raised TypeError
   \<and> getQuizzesForContent (store exampleInheritedAnswered) ''c1'' = []
   \<and> getQuizzesForContent
        (store (handleSubmitQuiz_request exampleEnv exampleInheritedAnswered exampleInheritedAnswered))
        ''c1'' = []
   \<and> getQuizzesForContent
        (store (handleSubmitQuiz exampleEnv Rejected exampleInheritedAnswered exampleInheritedAnswered))
        ''c1'' = []"
  by code_simp

text \<open>
  Claim C7. Recording an answer for a question id replaces the answer recorded for that id
  and leaves the answer of every other id as it was; the ids with an answer are the former
  ones and this one; moving to the previous or the next question does not touch the
  answers.
\<close>

theorem answer_last_write_wins:
  "userAnswers (handleAnswerChange q a p) q = Some a
   \<and> (\<forall>q'. q' \<noteq> q \<longrightarrow> userAnswers (handleAnswerChange q a p) q' = userAnswers p q')
   \<and> userAnswers (handleAnswerChange q a (handleAnswerChange q b p)) = userAnswers (handleAnswerChange q a p)
   \<and> dom (userAnswers (handleAnswerChange q a p)) = insert q (dom (userAnswers p))
   \<and> userAnswers (goNext p) = userAnswers p
   \<and> userAnswers (goPrevious p) = userAnswers p"
  by (simp add: handleAnswerChange_def goNext_def goPrevious_def)

theorem answer_last_write_wins_witness:
  "''q-a'' \<noteq> ''q1''
   \<and> userAnswers (handleAnswerChange ''q1'' ''Paris'' exampleAnswered) ''q1'' = Some ''Paris''
   \<and> userAnswers (handleAnswerChange ''q1'' ''Paris'' exampleAnswered) ''q-a''
       = userAnswers exampleAnswered ''q-a''"
  using answer_last_write_wins [where q = "''q1''" and a = "''Paris''" and p = exampleAnswered]
  by simp

text \<open>
  Claim C8 as stated fails: when the gateway supplies the same id for two questions, the
  load succeeds and the ids of the session are not pairwise distinct.
\<close>

theorem loadQuestions_ids_not_distinct:
  "truthy (materialText exampleEnv) \<and> exampleDuplicated \<noteq> []
   \<and> quizState (loadQuestions exampleEnv exampleRandom (Resolved exampleDuplicated)
                  (initialPage exampleEnv Map.empty)) = Taking
   \<and> \<not> distinct (map qid (questions (loadQuestions exampleEnv exampleRandom
                     (Resolved exampleDuplicated) (initialPage exampleEnv Map.empty))))"
  by code_simp

text \<open>
  Claim C8, amended. On a successful load of a non-empty question set the page is in state
  \<open>taking\<close> with the configured duration as remaining time; a question whose supplied id
  is missing or empty gets the id \<open>q-\<close> followed by the next random suffix, every other
  question is kept as supplied; all ids are non-empty. The ids are pairwise distinct when
  the supplied ids are, the random suffixes do not repeat, and no supplied id equals a
  generated one.
\<close>

theorem loadQuestions_assigns_ids:
  assumes "truthy (materialText e)" and "gs \<noteq> []"
  shows "quizState (loadQuestions e rnd (Resolved gs) p) = Taking
    \<and> timeLeft (loadQuestions e rnd (Resolved gs) p) = DEFAULT_QUIZ_DURATION_SECONDS e
    \<and> length (questions (loadQuestions e rnd (Resolved gs) p)) = length gs
    \<and> (\<forall>i<length gs.
          questions (loadQuestions e rnd (Resolved gs) p) ! i =
            (if truthy (qid (gs ! i)) then gs ! i
             else (gs ! i)\<lparr>qid := Some (''q-'' @
                     rnd (length (filter (\<lambda>q. \<not> truthy (qid q)) (take i gs))))\<rparr>))
    \<and> (\<forall>q \<in> set (questions (loadQuestions e rnd (Resolved gs) p)). \<exists>i. qid q = Some i \<and> i \<noteq> [])
    \<and> (distinct (map qid (filter (\<lambda>q. truthy (qid q)) gs)) \<and> inj rnd
         \<and> (\<forall>q \<in> set gs. \<forall>j. qid q \<noteq> Some (''q-'' @ rnd j)) \<longrightarrow>
        distinct (map qid (questions (loadQuestions e rnd (Resolved gs) p))))"
proof -
  have q: "questions (loadQuestions e rnd (Resolved gs) p) = assignIds rnd 0 gs"
    using assms by (simp add: loadQuestions_success)
  have t: "\<exists>i. qid q = Some i \<and> i \<noteq> []" if "q \<in> set (assignIds rnd 0 gs)" for q
    using assignIds_truthy [OF that] by (cases "qid q") (simp_all add: truthy_def)
  show ?thesis
    unfolding q using assms t
    by (simp add: loadQuestions_success assignIds_length assignIds_nth assignIds_distinct)
qed

theorem loadQuestions_assigns_ids_witness:
  "truthy (materialText exampleEnv) \<and> exampleGenerated \<noteq> []
   \<and> distinct (map qid (filter (\<lambda>q. truthy (qid q)) exampleGenerated))
   \<and> inj exampleRandom
   \<and> quizState exampleTaking = Taking
   \<and> timeLeft exampleTaking = DEFAULT_QUIZ_DURATION_SECONDS exampleEnv
   \<and> map qid (questions exampleTaking) = [Some ''q1'', Some ''q-a'']
   \<and> distinct (map qid (questions exampleTaking))"
proof -
  have h1: "truthy (materialText exampleEnv)" by code_simp
  have h2: "exampleGenerated \<noteq> []" by code_simp
  have h3: "distinct (map qid (filter (\<lambda>q. truthy (qid q)) exampleGenerated))" by code_simp
  have h4: "\<forall>q \<in> set exampleGenerated. \<forall>j. qid q \<noteq> Some (''q-'' @ exampleRandom j)"
    by (simp add: exampleGenerated_def exampleQuestion_def)
  have h5: "map qid (questions exampleTaking) = [Some ''q1'', Some ''q-a'']" by code_simp
  note t = loadQuestions_assigns_ids [OF h1 h2, of exampleRandom "initialPage exampleEnv Map.empty"]
  have a: "quizState exampleTaking = Taking
      \<and> timeLeft exampleTaking = DEFAULT_QUIZ_DURATION_SECONDS exampleEnv"
    unfolding exampleTaking_def using t by blast
  have b: "distinct (map qid (questions exampleTaking))"
    unfolding exampleTaking_def using t h3 h4 inj_exampleRandom by blast
  show ?thesis using h1 h2 h3 h5 a b inj_exampleRandom by blast
qed



text \<open>
  Claim C10. No percentage is computed by a division by zero: the percentage of the
  results view is always a number and is 0 (printed as 0) for an empty question list; the
  dashboard average is always a number, is not changed by quizzes without questions, and is
  0 when no quiz counts; the last score of a material card is absent rather than a
  division by zero.
\<close>

theorem percentages_guarded:
  "resultsPercentage p \<noteq> None
   \<and> (questions p = [] \<longrightarrow> map_option progressLabel (resultsPercentage p) = Some 0)
   \<and> getAverageQuizScore ms g \<noteq> None
   \<and> getAverageQuizScore ms (\<lambda>c. map_option (filter (\<lambda>q. quiz_questions q \<noteq> [])) (g c))
       = getAverageQuizScore ms g
   \<and> (filter spec_counted (spec_allQuizzes ms g) = [] \<longrightarrow> getAverageQuizScore ms g = Some 0)
   \<and> lastQuizScore quizzes \<noteq> Some None"
proof -
  have a: "map_option progressLabel (resultsPercentage p) = Some 0" if "questions p = []"
    using that by (simp add: resultsPercentage_def progressLabel_def mathRound_def floor_half)
  have b: "getAverageQuizScore ms g \<noteq> None" by (simp add: getAverageQuizScore_unfold)
  have c: "getAverageQuizScore ms (\<lambda>c. map_option (filter (\<lambda>q. quiz_questions q \<noteq> [])) (g c))
       = getAverageQuizScore ms g"
    by (simp add: getAverageQuizScore_unfold countMaterials_counted spec_allQuizzes_skip)
  have d: "getAverageQuizScore ms g = Some 0" if "filter spec_counted (spec_allQuizzes ms g) = []"
    using that by (simp add: getAverageQuizScore_unfold countMaterials_counted)
  have e: "lastQuizScore quizzes \<noteq> Some None"
    by (auto simp: lastQuizScore_def jsDivide_def Let_def split: option.splits)
  show ?thesis using resultsPercentage_Some a b c d e by blast
qed

theorem percentages_guarded_witness:
  "questions (initialPage exampleEnv Map.empty) = []
   \<and> resultsPercentage (initialPage exampleEnv Map.empty) = Some 0
   \<and> filter spec_counted (spec_allQuizzes exampleMaterials (\<lambda>c. Some [exampleQuiz c 0 0])) = []
   \<and> getAverageQuizScore exampleMaterials (\<lambda>c. Some [exampleQuiz c 0 0]) = Some 0"
proof -
  have h1: "questions (initialPage exampleEnv Map.empty) = []" by code_simp
  have h2: "filter spec_counted (spec_allQuizzes exampleMaterials (\<lambda>c. Some [exampleQuiz c 0 0])) = []"
    by code_simp
  have h3: "resultsPercentage (initialPage exampleEnv Map.empty) = Some 0" by code_simp
  have "getAverageQuizScore exampleMaterials (\<lambda>c. Some [exampleQuiz c 0 0]) = Some 0"
    using h2 percentages_guarded [of "initialPage exampleEnv Map.empty" exampleMaterials "\<lambda>c. Some [exampleQuiz c 0 0]"]
    by blast
  then show ?thesis using h1 h2 h3 by blast
qed

end
